theory Spec2Isabelle
  imports Main
begin

section \<open>Strings as the server builds and takes them apart\<close>

text \<open>
  \<^verbatim>\<open>server.js\<close> builds one string with a template literal
  (\<^verbatim>\<open>`${Date.now()}-${file.originalname}`\<close>), takes one apart with
  \<^verbatim>\<open>split(" ")[1]\<close> and joins a list with \<^verbatim>\<open>join(",")\<close>. A JavaScript string is
  modelled as a \<^typ>\<open>string\<close>; \<^verbatim>\<open>Date.now()\<close> is a natural number of milliseconds.
\<close>

definition digit_char :: "nat \<Rightarrow> char" where
  "digit_char d = ''0123456789'' ! d"

text \<open>The decimal rendering of a non-negative integer, as a template literal gives it.\<close>

fun number_to_string :: "nat \<Rightarrow> string" where
  "number_to_string n =
     (if n < 10 then [digit_char n]
      else number_to_string (n div 10) @ [digit_char (n mod 10)])"

declare number_to_string.simps [simp del]

definition digit_value :: "char \<Rightarrow> nat" where
  "digit_value c = of_char c - 48"

definition parse_number :: "string \<Rightarrow> nat" where
  "parse_number s = foldl (\<lambda>a c. 10 * a + digit_value c) 0 s"

text \<open>
  \<^verbatim>\<open>String.prototype.split\<close> with a separator of one character: the empty string gives
  one empty part, and two separators in a row give an empty part between them.
\<close>

fun js_split :: "char \<Rightarrow> string \<Rightarrow> string list" where
  "js_split sep [] = [[]]"
| "js_split sep (c # cs) =
     (if c = sep then [] # js_split sep cs
      else (case js_split sep cs of [] \<Rightarrow> [[c]] | p # ps \<Rightarrow> (c # p) # ps))"

text \<open>\<^verbatim>\<open>xs[1]\<close>: the second element, \<^verbatim>\<open>undefined\<close> (here \<^term>\<open>None\<close>) when there is none.\<close>

fun index1 :: "'a list \<Rightarrow> 'a option" where
  "index1 (x # y # ys) = Some y"
| "index1 xs = None"

text \<open>\<^verbatim>\<open>Array.prototype.join\<close>.\<close>

fun js_join :: "string \<Rightarrow> string list \<Rightarrow> string" where
  "js_join sep [] = []"
| "js_join sep [x] = x"
| "js_join sep (x # y # ys) = x @ sep @ js_join sep (y # ys)"

section \<open>Data model\<close>

type_synonym bytes = string

text \<open>
  A field of \<^verbatim>\<open>req.body\<close> as the JSON parser leaves it: absent, a string, or a value of
  another type (a number, a boolean, \<^verbatim>\<open>null\<close>, an array, an object).
\<close>

datatype js_value = Undefined | Str string | Other

text \<open>
  A bcrypt hash in parsed form: the modular-crypt string \<^verbatim>\<open>$2a$<rounds>$<salt><digest>\<close>
  that \<^verbatim>\<open>bcrypt.hash\<close> returns carries these three parts.
\<close>

record hashed =
  rounds :: nat
  salt :: string
  digest :: string

text \<open>\<^verbatim>\<open>userSchema\<close>: a document of the \<^verbatim>\<open>User\<close> collection.\<close>

record user =
  email :: string
  password :: hashed

text \<open>The payload of a token signed by \<^verbatim>\<open>jwt.sign({ email }, ..., { expiresIn: "1h" })\<close>.\<close>

record jwt_payload =
  payload_email :: string
  iat :: nat
  exp :: nat

record jwt =
  payload :: jwt_payload
  signature :: string

datatype jwt_error = JsonWebTokenError string | TokenExpiredError nat

text \<open>\<^verbatim>\<open>mailOptions\<close>, the message handed to \<^verbatim>\<open>transporter.sendMail\<close>.\<close>

record mailOptions =
  mail_from :: string
  mail_to :: string
  mail_subject :: string
  mail_text :: string
  mail_attachments :: "(string \<times> string) list"

text \<open>What a route sends back: the status code and the body.\<close>

datatype res_body =
  Message string
| Login_ok string string string
| Sent string string
| Status_text string
| Error_page string

record response =
  status :: nat
  send :: res_body

text \<open>
  The libraries and the process environment the server runs against. The cryptographic
  primitives and the wire format of a token are parameters, so every theorem holds for
  each choice of them:
  \<^item> \<open>kdf\<close>: bcrypt's key derivation (rounds, salt, password to digest);
  \<^item> \<open>hmac\<close>: the keyed signature \<^verbatim>\<open>jsonwebtoken\<close> computes over a payload;
  \<^item> \<open>jwt_encode\<close>, \<open>jwt_decode\<close>: the compact serialisation of a token and its parser;
  \<^item> \<open>jwtSecret\<close>: \<^verbatim>\<open>process.env.JWT_SECRET\<close>, \<^term>\<open>None\<close> when the variable is not set;
  \<^item> \<open>smtp\<close>: what the mail relay answers to a message, an error or the delivery info;
  \<^item> \<open>interleave\<close>: what a file holds after two write streams of one request have
    written to it, from what the earlier stream left and the bytes of the later one; the
    order in which the writes land is the operating system's.
\<close>

record env =
  kdf :: "nat \<Rightarrow> string \<Rightarrow> string \<Rightarrow> string"
  hmac :: "string \<Rightarrow> jwt_payload \<Rightarrow> string"
  jwt_encode :: "jwt \<Rightarrow> string"
  jwt_decode :: "string \<Rightarrow> jwt option"
  jwtSecret :: "string option"
  smtp :: "mailOptions \<Rightarrow> string + string"
  interleave :: "bytes \<Rightarrow> bytes \<Rightarrow> bytes"

text \<open>
  The state the routes share: the \<^verbatim>\<open>User\<close> collection in the order in which the
  database enumerates it, the files under \<^verbatim>\<open>uploads/\<close> by path, and the messages
  submitted to the transport (one entry per call of \<^verbatim>\<open>transporter.sendMail\<close>).
\<close>

record server =
  users :: "user list"
  uploads :: "string \<rightharpoonup> bytes"
  outbox :: "mailOptions list"

section \<open>The libraries\<close>

subsection \<open>bcryptjs\<close>

definition bcrypt_hash :: "env \<Rightarrow> string \<Rightarrow> nat \<Rightarrow> string \<Rightarrow> hashed" where
  "bcrypt_hash E s r slt = \<lparr>rounds = r, salt = slt, digest = kdf E r slt s\<rparr>"

definition bcrypt_compare :: "env \<Rightarrow> string \<Rightarrow> hashed \<Rightarrow> bool" where
  "bcrypt_compare E s h = (kdf E (rounds h) (salt h) s = digest h)"

text \<open>
  The two calls as the routes make them, with the password as the body gives it:
  \<^verbatim>\<open>bcrypt.hash\<close> and \<^verbatim>\<open>bcrypt.compare\<close> reject with \<^verbatim>\<open>Illegal arguments\<close> when it is
  not a string, and the \<^verbatim>\<open>await\<close> throws.
\<close>

datatype bcrypt_error = Illegal_arguments

definition await_bcrypt_hash :: "env \<Rightarrow> js_value \<Rightarrow> nat \<Rightarrow> string \<Rightarrow> bcrypt_error + hashed" where
  "await_bcrypt_hash E pw r slt =
     (case pw of
        Str s \<Rightarrow> Inr (bcrypt_hash E s r slt)
      | _ \<Rightarrow> Inl Illegal_arguments)"

definition await_bcrypt_compare :: "env \<Rightarrow> js_value \<Rightarrow> hashed \<Rightarrow> bcrypt_error + bool" where
  "await_bcrypt_compare E pw h =
     (case pw of
        Str s \<Rightarrow> Inr (bcrypt_compare E s h)
      | _ \<Rightarrow> Inl Illegal_arguments)"

subsection \<open>jsonwebtoken\<close>

text \<open>
  \<^verbatim>\<open>jwt.sign\<close> throws when the key is missing or empty; otherwise the payload gets the
  issue time in seconds and an expiry one hour later, and is signed with the key.
\<close>

definition jwt_sign :: "env \<Rightarrow> string \<Rightarrow> string option \<Rightarrow> nat \<Rightarrow> string + string" where
  "jwt_sign E e secret now =
     (case secret of
        None \<Rightarrow> Inl ''secretOrPrivateKey must have a value''
      | Some k \<Rightarrow>
          if k = [] then Inl ''secretOrPrivateKey must have a value''
          else
            let p = \<lparr>payload_email = e, iat = now div 1000, exp = now div 1000 + 3600\<rparr>
            in Inr (jwt_encode E \<lparr>payload = p, signature = hmac E k p\<rparr>))"

text \<open>
  \<^verbatim>\<open>jwt.verify\<close> checks, in this order: that a token is given, that it parses, that a
  key is given, the signature, and the expiry against the clock in seconds.
\<close>

definition jwt_verify :: "env \<Rightarrow> string \<Rightarrow> string option \<Rightarrow> nat \<Rightarrow> jwt_error + jwt_payload" where
  "jwt_verify E token secret now =
     (if token = [] then Inl (JsonWebTokenError ''jwt must be provided'')
      else
        case jwt_decode E token of
          None \<Rightarrow> Inl (JsonWebTokenError ''jwt malformed'')
        | Some t \<Rightarrow>
            (case secret of
               None \<Rightarrow> Inl (JsonWebTokenError ''secret or public key must be provided'')
             | Some k \<Rightarrow>
                 if k = [] then Inl (JsonWebTokenError ''secret or public key must be provided'')
                 else if signature t \<noteq> hmac E k (payload t)
                   then Inl (JsonWebTokenError ''invalid signature'')
                 else if exp (payload t) \<le> now div 1000
                   then Inl (TokenExpiredError (exp (payload t)))
                 else Inr (payload t)))"

text \<open>
  What the routes rely on from the serialisation: parsing a serialised token gives the
  token back, and a serialised token is not empty and holds no space.
\<close>

definition jwt_codec_ok :: "env \<Rightarrow> bool" where
  "jwt_codec_ok E =
     (\<forall>t. jwt_decode E (jwt_encode E t) = Some t \<and> jwt_encode E t \<noteq> [] \<and>
          CHR '' '' \<notin> set (jwt_encode E t))"

subsection \<open>mongoose\<close>

text \<open>\<^verbatim>\<open>User.findOne({ email })\<close>: the first document with that email, or \<^verbatim>\<open>null\<close>.\<close>

definition findOne :: "user list \<Rightarrow> string \<Rightarrow> user option" where
  "findOne us e = find (\<lambda>u. email u = e) us"

text \<open>
  \<^verbatim>\<open>User.find({ email: { $in: to } }, "email")\<close>: the documents whose email is one of
  \<open>to\<close>, as the database enumerates the collection.
\<close>

definition find_in :: "user list \<Rightarrow> string list \<Rightarrow> user list" where
  "find_in us to = filter (\<lambda>u. email u \<in> set to) us"

datatype db_error = ValidationError | DuplicateKey

text \<open>
  \<^verbatim>\<open>user.save()\<close>: \<^verbatim>\<open>required: true\<close> refuses an empty email, \<^verbatim>\<open>unique: true\<close> an email
  the collection already holds; otherwise the document is added.
\<close>

definition save :: "user list \<Rightarrow> user \<Rightarrow> db_error + user list" where
  "save us u =
     (if email u = [] then Inl ValidationError
      else if email u \<in> set (map email us) then Inl DuplicateKey
      else Inr (us @ [u]))"

subsection \<open>multer\<close>

text \<open>
  One file part of a multipart request: the file name the client gave, the bytes, the
  reading of \<^verbatim>\<open>Date.now()\<close> when the \<^verbatim>\<open>filename\<close> callback runs for it, and the error
  of the disk write if it fails.
\<close>

record part =
  part_name :: string
  part_data :: bytes
  part_time :: nat
  write_error :: "string option"

text \<open>The entry of \<^verbatim>\<open>req.files\<close> for a stored file.\<close>

record multer_file =
  originalname :: string
  filename :: string
  path :: string

text \<open>The \<^verbatim>\<open>filename\<close> callback of \<^verbatim>\<open>multer.diskStorage\<close> (lines 71-73).\<close>

definition storage_filename :: "nat \<Rightarrow> string \<Rightarrow> string" where
  "storage_filename now name = number_to_string now @ ''-'' @ name"

text \<open>The \<^verbatim>\<open>destination\<close> callback (lines 68-70) joined with the file name.\<close>

definition storage_path :: "string \<Rightarrow> string" where
  "storage_path name = ''uploads/'' @ name"

datatype upload_result =
  Upload_failed string "string \<rightharpoonup> bytes"
| Uploaded "multer_file list option" "string \<rightharpoonup> bytes"

definition remove_files :: "(string \<rightharpoonup> bytes) \<Rightarrow> multer_file list \<Rightarrow> (string \<rightharpoonup> bytes)" where
  "remove_files disk fs = fold (\<lambda>f d. d(path f := None)) fs disk"

text \<open>
  The multipart parser hands the middleware the base name of the client's file name: what
  follows the last slash or backslash, and nothing for \<^verbatim>\<open>.\<close> and \<^verbatim>\<open>..\<close>.
\<close>

definition basename :: "string \<Rightarrow> string" where
  "basename name =
     (let base = rev (takeWhile (\<lambda>c. c \<noteq> CHR ''/'' \<and> c \<noteq> CHR 0x5C) (rev name))
      in if base = ''..'' \<or> base = ''.'' then [] else base)"

text \<open>The middleware passes over a part whose file name is empty: no file is stored for it.\<close>

definition has_file :: "part \<Rightarrow> bool" where
  "has_file p = (basename (part_name p) \<noteq> [])"

definition file_parts :: "part list \<Rightarrow> part list" where
  "file_parts ps = filter has_file ps"

text \<open>What \<^verbatim>\<open>req.files\<close> says of a stored part: its name, its storage name and its path.\<close>

definition file_info :: "part \<Rightarrow> multer_file" where
  "file_info p =
     (let name = storage_filename (part_time p) (basename (part_name p))
      in \<lparr>originalname = basename (part_name p), filename = name, path = storage_path name\<rparr>)"

text \<open>
  The disk write of a part, given the files stored for this request so far. The write
  stream truncates the file at the part's path and writes the bytes. When an earlier part
  of the same request went to the same path, its stream is still writing, and what the
  file holds in the end is the environment's \<open>interleave\<close> of the two.
\<close>

definition store_part ::
  "env \<Rightarrow> multer_file list \<Rightarrow> part \<Rightarrow> (string \<rightharpoonup> bytes) \<Rightarrow> (string \<rightharpoonup> bytes)" where
  "store_part E stored p disk =
     (case disk (path (file_info p)) of
        None \<Rightarrow> disk(path (file_info p) \<mapsto> part_data p)
      | Some earlier \<Rightarrow>
          if path (file_info p) \<in> set (map path stored)
          then disk(path (file_info p) \<mapsto> interleave E earlier (part_data p))
          else disk(path (file_info p) \<mapsto> part_data p))"

text \<open>
  The parts that carry a file are stored in the order of the request, each at the path
  its name gives. When a write fails the middleware removes the files it has stored for
  this request and passes the error on. A failed write is taken to leave no file.
\<close>

fun handle_files ::
  "env \<Rightarrow> (string \<rightharpoonup> bytes) \<Rightarrow> multer_file list \<Rightarrow> part list \<Rightarrow> upload_result" where
  "handle_files E disk stored [] = Uploaded (Some stored) disk"
| "handle_files E disk stored (p # ps) =
     (if \<not> has_file p then handle_files E disk stored ps
      else
        case write_error p of
          Some err \<Rightarrow> Upload_failed err (remove_files disk stored)
        | None \<Rightarrow>
            handle_files E (store_part E stored p disk) (stored @ [file_info p]) ps)"

section \<open>The routes\<close>

text \<open>
  Each route is a function of the environment, the state and the request, and returns
  the answer and, where it writes, the new state. What a route draws from outside is an
  argument: the salt \<^verbatim>\<open>bcrypt.hash\<close> generates, the reading of \<^verbatim>\<open>Date.now()\<close>, the
  outcome of each disk write. The password of a body is any JSON value; the other
  fields of \<^verbatim>\<open>req.body\<close> are strings. The database answers every query.
\<close>

subsection \<open>Registration (lines 79-94)\<close>

text \<open>
  An error thrown inside the \<^verbatim>\<open>try\<close>, by \<^verbatim>\<open>bcrypt.hash\<close> or by \<^verbatim>\<open>user.save\<close>, is
  answered by the \<^verbatim>\<open>catch\<close> of lines 90-93.
\<close>

definition register ::
  "env \<Rightarrow> server \<Rightarrow> string \<Rightarrow> js_value \<Rightarrow> string \<Rightarrow> response \<times> server" where
  "register E st e pw slt =
     (case findOne (users st) e of
        Some existingUser \<Rightarrow> (\<lparr>status = 400, send = Message ''Email already exists''\<rparr>, st)
      | None \<Rightarrow>
          (case await_bcrypt_hash E pw 10 slt of
             Inl error \<Rightarrow> (\<lparr>status = 500, send = Message ''Registration failed''\<rparr>, st)
           | Inr hashedPassword \<Rightarrow>
               (case save (users st) \<lparr>email = e, password = hashedPassword\<rparr> of
                  Inl error \<Rightarrow> (\<lparr>status = 500, send = Message ''Registration failed''\<rparr>, st)
                | Inr us \<Rightarrow>
                    (\<lparr>status = 201, send = Message ''User registered successfully''\<rparr>,
                     st\<lparr>users := us\<rparr>))))"

subsection \<open>Login (lines 97-116)\<close>

text \<open>
  An error thrown inside the \<^verbatim>\<open>try\<close>, by \<^verbatim>\<open>bcrypt.compare\<close> (line 104) or by
  \<^verbatim>\<open>jwt.sign\<close> (line 108), is answered by the \<^verbatim>\<open>catch\<close> of lines 112-115.
\<close>

definition login :: "env \<Rightarrow> server \<Rightarrow> string \<Rightarrow> js_value \<Rightarrow> nat \<Rightarrow> response" where
  "login E st e pw now =
     (case findOne (users st) e of
        None \<Rightarrow> \<lparr>status = 400, send = Message ''Invalid email or password''\<rparr>
      | Some u \<Rightarrow>
          (case await_bcrypt_compare E pw (password u) of
             Inl error \<Rightarrow> \<lparr>status = 500, send = Message ''Login failed''\<rparr>
           | Inr isMatch \<Rightarrow>
               if \<not> isMatch
               then \<lparr>status = 400, send = Message ''Invalid email or password''\<rparr>
               else
                 case jwt_sign E e (jwtSecret E) now of
                   Inl error \<Rightarrow> \<lparr>status = 500, send = Message ''Login failed''\<rparr>
                 | Inr token \<Rightarrow>
                     \<lparr>status = 200, send = Login_ok token e ''Login successful''\<rparr>))"

subsection \<open>The authentication middleware (lines 119-128)\<close>

text \<open>
  \<^verbatim>\<open>res.sendStatus\<close>: the code with its standard text as body. The text is given for
  401 and 403, the two codes the server passes; the framework's table for the other
  codes is not part of the model.
\<close>

definition sendStatus :: "nat \<Rightarrow> response" where
  "sendStatus code =
     \<lparr>status = code,
      send = Status_text
        (if code = 401 then ''Unauthorized''
         else if code = 403 then ''Forbidden''
         else number_to_string code)\<rparr>"

text \<open>The middleware either answers itself or sets \<^verbatim>\<open>req.user\<close> and calls \<^verbatim>\<open>next()\<close>.\<close>

datatype gate = Respond response | Next jwt_payload

text \<open>\<^verbatim>\<open>req.headers.authorization?.split(" ")[1]\<close>; the header is \<^term>\<open>None\<close> when absent.\<close>

definition bearer_token :: "string option \<Rightarrow> string option" where
  "bearer_token authorization =
     (case authorization of
        None \<Rightarrow> None
      | Some h \<Rightarrow> index1 (js_split CHR '' '' h))"

definition authenticateJWT :: "env \<Rightarrow> string option \<Rightarrow> nat \<Rightarrow> gate" where
  "authenticateJWT E authorization now =
     (case bearer_token authorization of
        None \<Rightarrow> Respond (sendStatus 401)
      | Some token \<Rightarrow>
          if token = [] then Respond (sendStatus 401)
          else
            case jwt_verify E token (jwtSecret E) now of
              Inl err \<Rightarrow> Respond (sendStatus 403)
            | Inr u \<Rightarrow> Next u)"

subsection \<open>Sending a message (lines 131-165)\<close>

text \<open>
  A request to \<^verbatim>\<open>/api/send-email\<close>: the \<^verbatim>\<open>Authorization\<close> header, whether the body is
  multipart, the fields \<^verbatim>\<open>email\<close>, \<^verbatim>\<open>to\<close>, \<^verbatim>\<open>subject\<close> and \<^verbatim>\<open>body\<close> of \<^verbatim>\<open>req.body\<close>, and
  the file parts of the field \<^verbatim>\<open>attachments\<close>. The field \<^verbatim>\<open>to\<close> is a list of strings.
\<close>

record send_request =
  req_authorization :: "string option"
  req_multipart :: bool
  req_email :: string
  req_to :: "string list"
  req_subject :: string
  req_body :: string
  req_files :: "part list"

text \<open>
  \<^verbatim>\<open>upload.array("attachments")\<close>: a request that is not multipart passes through with
  \<^verbatim>\<open>req.files\<close> left undefined.
\<close>

definition upload_array :: "env \<Rightarrow> send_request \<Rightarrow> (string \<rightharpoonup> bytes) \<Rightarrow> upload_result" where
  "upload_array E req disk =
     (if req_multipart req then handle_files E disk [] (req_files req)
      else Uploaded None disk)"

text \<open>Lines 139-140: the recipients are the emails of the documents the query returns.\<close>

definition recipientEmails :: "user list \<Rightarrow> string list \<Rightarrow> string list" where
  "recipientEmails us to = map email (find_in us to)"

text \<open>Lines 143-152.\<close>

definition compose :: "user list \<Rightarrow> send_request \<Rightarrow> multer_file list \<Rightarrow> mailOptions" where
  "compose us req attachments =
     \<lparr>mail_from = req_email req,
      mail_to = js_join '','' (recipientEmails us (req_to req)),
      mail_subject = req_subject req,
      mail_text = req_body req,
      mail_attachments = map (\<lambda>f. (originalname f, path f)) attachments\<rparr>"

text \<open>
  The handler proper. With \<^verbatim>\<open>req.files\<close> undefined, \<^verbatim>\<open>attachments.map\<close> throws and the
  \<^verbatim>\<open>catch\<close> answers; otherwise the message is submitted and the answer is the
  transport's.
\<close>

definition send_email_handler ::
  "env \<Rightarrow> server \<Rightarrow> send_request \<Rightarrow> multer_file list option \<Rightarrow> response \<times> server" where
  "send_email_handler E st req files =
     (case files of
        None \<Rightarrow> (\<lparr>status = 500, send = Message ''Failed to send email''\<rparr>, st)
      | Some attachments \<Rightarrow>
          let mail = compose (users st) req attachments;
              st' = st\<lparr>outbox := outbox st @ [mail]\<rparr>
          in case smtp E mail of
               Inl error \<Rightarrow> (\<lparr>status = 500, send = Message ''Failed to send email''\<rparr>, st')
             | Inr info \<Rightarrow> (\<lparr>status = 200, send = Sent ''Email sent successfully'' info\<rparr>, st'))"

text \<open>
  The route as line 131 mounts it: the upload middleware, then the handler. An error of
  the middleware skips the handler and is answered by the framework's error handler.
\<close>

definition send_email :: "env \<Rightarrow> server \<Rightarrow> send_request \<Rightarrow> response \<times> server" where
  "send_email E st req =
     (case upload_array E req (uploads st) of
        Upload_failed err disk \<Rightarrow>
          (\<lparr>status = 500, send = Error_page err\<rparr>, st\<lparr>uploads := disk\<rparr>)
      | Uploaded files disk \<Rightarrow> send_email_handler E (st\<lparr>uploads := disk\<rparr>) req files)"

section \<open>The recipient resolution as the specification words it\<close>

text \<open>
  The specification's resolver keeps the requested identifiers that the store knows, each
  once, in the order in which the request first names them. It is defined here only to
  be compared with \<^const>\<open>recipientEmails\<close>.
\<close>

fun first_seen :: "'a list \<Rightarrow> 'a list \<Rightarrow> 'a list" where
  "first_seen seen [] = []"
| "first_seen seen (x # xs) =
     (if x \<in> set seen then first_seen seen xs else x # first_seen (x # seen) xs)"

definition spec_resolve :: "user list \<Rightarrow> string list \<Rightarrow> string list" where
  "spec_resolve us to = first_seen [] (filter (\<lambda>e. e \<in> set (map email us)) to)"

section \<open>A sample environment\<close>

text \<open>
  One executable choice of the parameters, to run the routes on concrete requests. Its
  token format writes the four fields of a token separated by dots, with the dots, the
  spaces and the tildes of a text field escaped. Of two writes to one file its disk lets
  the earlier part's land last, over the start of the later part's bytes.
\<close>

fun escape :: "string \<Rightarrow> string" where
  "escape [] = []"
| "escape (c # cs) =
     (if c = CHR '' '' then ''~s''
      else if c = CHR ''.'' then ''~d''
      else if c = CHR ''~'' then ''~t''
      else [c]) @ escape cs"

fun unescape :: "string \<Rightarrow> string" where
  "unescape (c # d # cs) =
     (if c = CHR ''~''
      then (if d = CHR ''s'' then CHR '' '' else if d = CHR ''d'' then CHR ''.'' else CHR ''~'')
        # unescape cs
      else c # unescape (d # cs))"
| "unescape cs = cs"

definition sample_encode :: "jwt \<Rightarrow> string" where
  "sample_encode t =
     escape (payload_email (payload t)) @ ''.'' @ number_to_string (iat (payload t)) @ ''.'' @
     number_to_string (exp (payload t)) @ ''.'' @ escape (signature t)"

definition sample_decode :: "string \<Rightarrow> jwt option" where
  "sample_decode s =
     (case js_split CHR ''.'' s of
        [a, b, c, d] \<Rightarrow>
          Some \<lparr>payload = \<lparr>payload_email = unescape a, iat = parse_number b, exp = parse_number c\<rparr>,
                signature = unescape d\<rparr>
      | _ \<Rightarrow> None)"

definition sample_env :: env where
  "sample_env =
     \<lparr>kdf = (\<lambda>r slt s. slt @ ''$'' @ s),
      hmac = (\<lambda>k p. k @ ''|'' @ payload_email p @ ''|'' @ number_to_string (exp p)),
      jwt_encode = sample_encode,
      jwt_decode = sample_decode,
      jwtSecret = Some ''k3y'',
      smtp = (\<lambda>m. if mail_to m = [] then Inl ''No recipients defined'' else Inr ''250 OK''),
      interleave = (\<lambda>earlier later. earlier @ drop (length earlier) later)\<rparr>"

text \<open>The store after Alice and Bob have registered, in this order, with nothing else done.\<close>

definition empty_server :: server where
  "empty_server = \<lparr>users = [], uploads = Map.empty, outbox = []\<rparr>"

definition sample_store :: server where
  "sample_store =
     snd (register sample_env
       (snd (register sample_env empty_server ''alice@example.com'' (Str ''pw123'') ''salt1''))
       ''bob@example.com'' (Str ''hunter2'') ''salt2'')"

section \<open>Decimal rendering and splitting\<close>

lemma below_ten: "d < 10 \<Longrightarrow> d \<in> {0, 1, 2, 3, 4, 5, 6, 7, 8, 9::nat}"
  by auto

lemma digit_value_digit_char: "d < 10 \<Longrightarrow> digit_value (digit_char d) = d"
  using below_ten [of d] by (auto simp: digit_value_def digit_char_def)

lemma digit_char_in: "d < 10 \<Longrightarrow> digit_char d \<in> set ''0123456789''"
  using below_ten [of d] by (auto simp: digit_char_def)

lemma parse_number_to_string: "parse_number (number_to_string n) = n"
proof (induction n rule: number_to_string.induct)
  case (1 n)
  show ?case
  proof (cases "n < 10")
    case True
    then show ?thesis
      by (simp add: number_to_string.simps [of n] parse_number_def digit_value_digit_char)
  next
    case False
    with 1 show ?thesis
      by (simp add: number_to_string.simps [of n] parse_number_def digit_value_digit_char)
  qed
qed

lemma number_to_string_digits: "set (number_to_string n) \<subseteq> set ''0123456789''"
proof (induction n rule: number_to_string.induct)
  case (1 n)
  then show ?case
    using digit_char_in [of n] digit_char_in [of "n mod 10"]
    by (cases "n < 10") (auto simp: number_to_string.simps [of n])
qed

lemma number_to_string_inject: "number_to_string m = number_to_string n \<Longrightarrow> m = n"
  by (metis parse_number_to_string)

lemma js_split_no_sep: "sep \<notin> set s \<Longrightarrow> js_split sep s = [s]"
  by (induction s) (auto split: list.splits)

lemma js_split_append: "sep \<notin> set a \<Longrightarrow> js_split sep (a @ sep # r) = a # js_split sep r"
  by (induction a) (auto split: list.splits)

lemma dash_not_in_number: "CHR ''-'' \<notin> set (number_to_string n)"
  using number_to_string_digits [of n] by auto

lemma dot_not_in_number: "CHR ''.'' \<notin> set (number_to_string n)"
  using number_to_string_digits [of n] by auto

lemma space_not_in_number: "CHR '' '' \<notin> set (number_to_string n)"
  using number_to_string_digits [of n] by auto

lemma number_to_string_not_Nil: "number_to_string n \<noteq> []"
  by (cases "n < 10") (simp_all add: number_to_string.simps [of n])

lemma js_split_not_Nil: "js_split sep s \<noteq> []"
  by (induction s) (auto split: list.splits)

lemma js_split_two: "sep \<in> set s \<Longrightarrow> \<exists>a b r. js_split sep s = a # b # r"
proof (induction s)
  case Nil
  then show ?case by simp
next
  case (Cons c cs)
  show ?case
  proof (cases "c = sep")
    case True
    then show ?thesis
      using js_split_not_Nil [of sep cs] by (cases "js_split sep cs") auto
  next
    case False
    with Cons.prems have "sep \<in> set cs" by simp
    from Cons.IH [OF this] False show ?thesis by auto
  qed
qed

text \<open>A string has a second part when split at a character exactly when it holds one.\<close>

lemma no_second_part_iff: "index1 (js_split sep s) = None \<longleftrightarrow> sep \<notin> set s"
proof
  assume "index1 (js_split sep s) = None"
  then show "sep \<notin> set s"
    using js_split_two [of sep s] by auto
next
  assume "sep \<notin> set s"
  then show "index1 (js_split sep s) = None"
    by (simp add: js_split_no_sep)
qed

section \<open>The sample environment meets the serialisation contract\<close>

lemma unescape_escape: "unescape (escape s) = s"
proof (induction s)
  case Nil
  show ?case by simp
next
  case (Cons c cs)
  show ?case
  proof (cases "c = CHR '' '' \<or> c = CHR ''.'' \<or> c = CHR ''~''")
    case True
    with Cons show ?thesis by auto
  next
    case False
    with Cons show ?thesis by (cases "escape cs") auto
  qed
qed

lemma escape_clean: "CHR '' '' \<notin> set (escape s) \<and> CHR ''.'' \<notin> set (escape s)"
  by (induction s) auto

lemma sample_split:
  "js_split CHR ''.'' (sample_encode t) =
     [escape (payload_email (payload t)), number_to_string (iat (payload t)),
      number_to_string (exp (payload t)), escape (signature t)]"
  by (simp add: sample_encode_def js_split_append js_split_no_sep escape_clean dot_not_in_number)

lemma sample_decode_encode: "sample_decode (sample_encode t) = Some t"
  by (simp add: sample_decode_def sample_split unescape_escape parse_number_to_string)

lemma sample_encode_clean: "sample_encode t \<noteq> [] \<and> CHR '' '' \<notin> set (sample_encode t)"
  by (simp add: sample_encode_def escape_clean space_not_in_number)

lemma sample_codec_ok: "jwt_codec_ok sample_env"
  by (simp add: jwt_codec_ok_def sample_env_def sample_decode_encode sample_encode_clean)

lemma sample_store_eq:
  "sample_store =
     \<lparr>users =
        [\<lparr>email = ''alice@example.com'',
          password = \<lparr>rounds = 10, salt = ''salt1'', digest = ''salt1$pw123''\<rparr>\<rparr>,
         \<lparr>email = ''bob@example.com'',
          password = \<lparr>rounds = 10, salt = ''salt2'', digest = ''salt2$hunter2''\<rparr>\<rparr>],
      uploads = Map.empty, outbox = []\<rparr>"
  by (simp add: sample_store_def empty_server_def register_def findOne_def save_def
      await_bcrypt_hash_def bcrypt_hash_def sample_env_def)

section \<open>Registration\<close>

lemma findOne_Some_iff: "(\<exists>u. findOne us e = Some u) \<longleftrightarrow> e \<in> set (map email us)"
  by (induction us) (auto simp: findOne_def)

lemma one_match: "distinct (map email us) \<Longrightarrow> e \<in> set (map email us) \<Longrightarrow>
    length (filter (\<lambda>u. email u = e) us) = 1"
proof (induction us)
  case Nil
  then show ?case by simp
next
  case (Cons a us)
  show ?case
  proof (cases "email a = e")
    case True
    with Cons.prems have "e \<notin> email ` set us"
      by simp
    then have "\<forall>u\<in>set us. email u \<noteq> e"
      by blast
    then have "filter (\<lambda>u. email u = e) us = []"
      by (simp add: filter_empty_conv)
    with True show ?thesis by simp
  next
    case False
    with Cons show ?thesis by simp
  qed
qed

lemma findOne_append: "findOne us e = None \<Longrightarrow> findOne (us @ vs) e = findOne vs e"
  by (induction us) (auto simp: findOne_def)

text \<open>The unique index as an invariant: registration keeps the emails of the store distinct.\<close>

lemma register_keeps_distinct:
  "distinct (map email (users st)) \<Longrightarrow>
   distinct (map email (users (snd (register E st e pw slt))))"
  by (auto simp: register_def save_def split: option.splits sum.splits)

lemma register_stores_hash:
  "fst (register E st e (Str pw) slt) =
     \<lparr>status = 201, send = Message ''User registered successfully''\<rparr>
   \<Longrightarrow> findOne (users (snd (register E st e (Str pw) slt))) e =
       Some \<lparr>email = e, password = bcrypt_hash E pw 10 slt\<rparr>"
  by (auto simp: register_def save_def await_bcrypt_hash_def findOne_append
      split: option.splits if_splits)
    (simp add: findOne_def)

text \<open>A password that is not a string is never registered.\<close>

lemma register_needs_string:
  "fst (register E st e pw slt) = \<lparr>status = 201, send = Message ''User registered successfully''\<rparr>
   \<Longrightarrow> \<exists>s. pw = Str s"
  by (cases pw) (auto simp: register_def await_bcrypt_hash_def split: option.splits)

text \<open>
  C4. Registering an email the store already holds answers 400 with
  \<^verbatim>\<open>Email already exists\<close> and leaves the state as it was; with the emails of the store
  distinct (the unique index, which \<open>register_keeps_distinct\<close> shows registration keeps),
  the store then still holds exactly one user with that email.
\<close>

theorem register_duplicate_rejected:
  assumes "e \<in> set (map email (users st))"
    and "distinct (map email (users st))"
  shows "register E st e pw slt =
           (\<lparr>status = 400, send = Message ''Email already exists''\<rparr>, st) \<and>
         length (filter (\<lambda>u. email u = e) (users (snd (register E st e pw slt)))) = 1"
proof -
  obtain u where "findOne (users st) e = Some u"
    using assms(1) findOne_Some_iff by blast
  then have r: "register E st e pw slt =
      (\<lparr>status = 400, send = Message ''Email already exists''\<rparr>, st)"
    by (simp add: register_def)
  with one_match [OF assms(2) assms(1)] show ?thesis
    by simp
qed

text \<open>
  C4 on the sample store: Alice registers a second time.
\<close>

theorem register_duplicate_rejected_witness:
  "register sample_env sample_store ''alice@example.com'' (Str ''another'') ''salt3'' =
     (\<lparr>status = 400, send = Message ''Email already exists''\<rparr>, sample_store) \<and>
   length (filter (\<lambda>u. email u = ''alice@example.com'')
     (users (snd (register sample_env sample_store ''alice@example.com'' (Str ''another'')
       ''salt3'')))) = 1"
  using register_duplicate_rejected
    [of "''alice@example.com''" sample_store sample_env "Str ''another''" "''salt3''"]
  by (simp add: sample_store_eq)

section \<open>Login\<close>

text \<open>
  Where the password is a string, the two failures of a login have one answer: a
  registered email with a password that \<^verbatim>\<open>bcrypt.compare\<close> rejects, and an email the
  store does not hold, both get status 400 and \<^verbatim>\<open>Invalid email or password\<close>.
\<close>

lemma login_string_failures_agree:
  assumes "findOne (users st) e1 = Some u"
    and "\<not> bcrypt_compare E wrong (password u)"
    and "findOne (users st) e2 = None"
  shows "login E st e1 (Str wrong) now =
           \<lparr>status = 400, send = Message ''Invalid email or password''\<rparr> \<and>
         login E st e2 pw now' = \<lparr>status = 400, send = Message ''Invalid email or password''\<rparr>"
  using assms by (simp add: login_def await_bcrypt_compare_def)

text \<open>
  C5, at a concrete input. A login request that names an email and carries no password
  is answered 500 with \<^verbatim>\<open>Login failed\<close> when the email is registered, because
  \<^verbatim>\<open>bcrypt.compare\<close> throws on the missing password and the \<^verbatim>\<open>catch\<close> answers, and
  400 with \<^verbatim>\<open>Invalid email or password\<close> when it is not: the two failures differ in
  status and in message, and tell the caller whether the email is registered.
\<close>

theorem login_without_password_tells_registered:
  "login sample_env sample_store ''alice@example.com'' Undefined 5000 =
     \<lparr>status = 500, send = Message ''Login failed''\<rparr> \<and>
   login sample_env sample_store ''carol@example.com'' Undefined 5000 =
     \<lparr>status = 400, send = Message ''Invalid email or password''\<rparr>"
  by (simp add: login_def await_bcrypt_compare_def findOne_def sample_store_eq)

lemma bearer_token_Bearer:
  "CHR '' '' \<notin> set t \<Longrightarrow> bearer_token (Some (''Bearer '' @ t)) = Some t"
  using js_split_append [of "CHR '' ''" "''Bearer''" t]
  by (simp add: bearer_token_def js_split_no_sep)

text \<open>
  C2. For a registered pair (the store holds a user with the email whose hash is the
  bcrypt hash of the password, as \<open>register_stores_hash\<close> shows registration leaves it),
  login answers 200 with a token, and the authentication middleware, given that token as
  bearer credential at any time before the hour has passed, lets the request through
  with claims that carry exactly that email. The signing key is set and the
  serialisation of tokens parses back what it wrote.
\<close>

theorem login_token_verifies:
  assumes codec: "jwt_codec_ok E"
    and key: "jwtSecret E = Some k" "k \<noteq> []"
    and registered: "findOne (users st) e = Some u" "password u = bcrypt_hash E pw 10 slt"
    and fresh: "now' div 1000 < now div 1000 + 3600"
  shows "\<exists>token.
           login E st e (Str pw) now =
             \<lparr>status = 200, send = Login_ok token e ''Login successful''\<rparr> \<and>
           authenticateJWT E (Some (''Bearer '' @ token)) now' =
             Next \<lparr>payload_email = e, iat = now div 1000, exp = now div 1000 + 3600\<rparr>"
proof -
  define p where "p = \<lparr>payload_email = e, iat = now div 1000, exp = now div 1000 + 3600\<rparr>"
  define t where "t = \<lparr>payload = p, signature = hmac E k p\<rparr>"
  define token where "token = jwt_encode E t"
  have match: "bcrypt_compare E pw (password u)"
    by (simp add: registered(2) bcrypt_compare_def bcrypt_hash_def)
  have "jwt_sign E e (jwtSecret E) now = Inr token"
    by (simp add: jwt_sign_def key token_def t_def p_def Let_def)
  with match have l: "login E st e (Str pw) now =
      \<lparr>status = 200, send = Login_ok token e ''Login successful''\<rparr>"
    by (simp add: login_def await_bcrypt_compare_def registered(1))
  from codec have dec: "jwt_decode E token = Some t"
    and nonempty: "token \<noteq> []" and nospace: "CHR '' '' \<notin> set token"
    by (simp_all add: jwt_codec_ok_def token_def)
  from fresh have "jwt_verify E token (jwtSecret E) now' = Inr p"
    by (simp add: jwt_verify_def nonempty dec key t_def p_def)
  with nonempty bearer_token_Bearer [OF nospace]
  have "authenticateJWT E (Some (''Bearer '' @ token)) now' = Next p"
    by (simp add: authenticateJWT_def)
  with l show ?thesis
    unfolding p_def by blast
qed

text \<open>
  C2 on the sample store: Alice logs in at second 5 and presents the token one
  millisecond before it expires at second 3605.
\<close>

theorem login_token_verifies_witness:
  "\<exists>token.
     login sample_env sample_store ''alice@example.com'' (Str ''pw123'') 5000 =
       \<lparr>status = 200, send = Login_ok token ''alice@example.com'' ''Login successful''\<rparr> \<and>
     authenticateJWT sample_env (Some (''Bearer '' @ token)) 3604999 =
       Next \<lparr>payload_email = ''alice@example.com'', iat = 5, exp = 3605\<rparr>"
proof -
  have key: "jwtSecret sample_env = Some ''k3y''" "''k3y'' \<noteq> []"
    by (simp_all add: sample_env_def)
  have registered:
    "findOne (users sample_store) ''alice@example.com'' =
       Some \<lparr>email = ''alice@example.com'',
             password = \<lparr>rounds = 10, salt = ''salt1'', digest = ''salt1$pw123''\<rparr>\<rparr>"
    "password \<lparr>email = ''alice@example.com'',
               password = \<lparr>rounds = 10, salt = ''salt1'', digest = ''salt1$pw123''\<rparr>\<rparr> =
       bcrypt_hash sample_env ''pw123'' 10 ''salt1''"
    by (simp_all add: sample_store_eq findOne_def bcrypt_hash_def sample_env_def)
  have fresh: "(3604999::nat) div 1000 < 5000 div 1000 + 3600"
    by simp
  from login_token_verifies [OF sample_codec_ok key registered fresh]
  show ?thesis by simp
qed

section \<open>The authentication middleware\<close>

text \<open>
  C9. A request whose \<^verbatim>\<open>Authorization\<close> header is present but has no second part when
  split at spaces (by \<open>no_second_part_iff\<close>, a header without a space: a bare token, or
  the word \<^verbatim>\<open>Bearer\<close> alone), or has an empty one, is answered 401 with the text
  \<^verbatim>\<open>Unauthorized\<close>, not 403.
\<close>

theorem authenticateJWT_header_without_token:
  assumes "index1 (js_split CHR '' '' h) = None \<or> index1 (js_split CHR '' '' h) = Some []"
  shows "authenticateJWT E (Some h) now =
           Respond \<lparr>status = 401, send = Status_text ''Unauthorized''\<rparr>"
  using assms by (auto simp: authenticateJWT_def bearer_token_def sendStatus_def)

text \<open>
  C9 on three headers: the scheme alone, a bare token, and the scheme with a trailing
  space.
\<close>

theorem authenticateJWT_header_without_token_witness:
  "authenticateJWT sample_env (Some ''Bearer'') 0 =
     Respond \<lparr>status = 401, send = Status_text ''Unauthorized''\<rparr> \<and>
   authenticateJWT sample_env (Some ''eyJhbGciOi.eyJlbWFpbCI6.c2ln'') 0 =
     Respond \<lparr>status = 401, send = Status_text ''Unauthorized''\<rparr> \<and>
   authenticateJWT sample_env (Some ''Bearer '') 0 =
     Respond \<lparr>status = 401, send = Status_text ''Unauthorized''\<rparr>"
  using authenticateJWT_header_without_token [of "''Bearer''" sample_env 0]
    authenticateJWT_header_without_token [of "''eyJhbGciOi.eyJlbWFpbCI6.c2ln''" sample_env 0]
    authenticateJWT_header_without_token [of "''Bearer ''" sample_env 0]
  by simp

text \<open>The token the sample environment issues to Alice at second 5.\<close>

lemma sample_token:
  "login sample_env sample_store ''alice@example.com'' (Str ''pw123'') 5000 =
     \<lparr>status = 200,
      send = Login_ok ''alice@example~dcom.5.3605.k3y|alice@example~dcom|3605''
        ''alice@example.com'' ''Login successful''\<rparr>"
  by (simp add: login_def sample_store_eq findOne_def await_bcrypt_compare_def
      bcrypt_compare_def sample_env_def
      jwt_sign_def sample_encode_def number_to_string.simps digit_char_def Let_def)

text \<open>
  C6, at a concrete input. At second 3605 Alice's token has a valid signature and has
  expired; \<^verbatim>\<open>jwt.verify\<close> tells the expiry apart from a wrong signature and from a
  malformed token, but the middleware answers all three with the same 403 and the same
  text, so the rejection of the expired token is not distinguishable.
\<close>

theorem expired_rejection_not_distinguished:
  "jwt_verify sample_env ''alice@example~dcom.5.3605.k3y|alice@example~dcom|3605''
     (jwtSecret sample_env) 3605000 = Inl (TokenExpiredError 3605) \<and>
   jwt_verify sample_env ''alice@example~dcom.5.9999.k3y|alice@example~dcom|3605''
     (jwtSecret sample_env) 3605000 = Inl (JsonWebTokenError ''invalid signature'') \<and>
   jwt_verify sample_env ''garbage'' (jwtSecret sample_env) 3605000 =
     Inl (JsonWebTokenError ''jwt malformed'') \<and>
   authenticateJWT sample_env
     (Some ''Bearer alice@example~dcom.5.3605.k3y|alice@example~dcom|3605'') 3605000 =
     Respond \<lparr>status = 403, send = Status_text ''Forbidden''\<rparr> \<and>
   authenticateJWT sample_env
     (Some ''Bearer alice@example~dcom.5.9999.k3y|alice@example~dcom|3605'') 3605000 =
     Respond \<lparr>status = 403, send = Status_text ''Forbidden''\<rparr> \<and>
   authenticateJWT sample_env (Some ''Bearer garbage'') 3605000 =
     Respond \<lparr>status = 403, send = Status_text ''Forbidden''\<rparr>"
  by (simp add: authenticateJWT_def bearer_token_def jwt_verify_def sample_env_def
      sample_decode_def parse_number_def digit_value_def sendStatus_def
      number_to_string.simps digit_char_def)

text \<open>
  C6, as amended. A token with a valid signature whose expiry instant has passed is
  rejected with status 403 and the text \<^verbatim>\<open>Forbidden\<close>, and every other token that
  fails verification, whatever the error, is rejected with the identical answer.
\<close>

theorem expired_token_forbidden:
  assumes token: "bearer_token (Some h) = Some t" "t \<noteq> []"
    and parsed: "jwt_decode E t = Some j"
    and key: "jwtSecret E = Some k" "k \<noteq> []"
    and signed: "signature j = hmac E k (payload j)"
    and expired: "exp (payload j) \<le> now div 1000"
    and other: "bearer_token (Some h') = Some t'" "t' \<noteq> []"
      "jwt_verify E t' (jwtSecret E) now' = Inl err"
  shows "jwt_verify E t (jwtSecret E) now = Inl (TokenExpiredError (exp (payload j))) \<and>
         authenticateJWT E (Some h) now =
           Respond \<lparr>status = 403, send = Status_text ''Forbidden''\<rparr> \<and>
         authenticateJWT E (Some h') now' = authenticateJWT E (Some h) now"
proof -
  have v: "jwt_verify E t (jwtSecret E) now = Inl (TokenExpiredError (exp (payload j)))"
    using token(2) parsed key signed expired by (simp add: jwt_verify_def)
  with token have a: "authenticateJWT E (Some h) now =
      Respond \<lparr>status = 403, send = Status_text ''Forbidden''\<rparr>"
    by (simp add: authenticateJWT_def sendStatus_def)
  from other have "authenticateJWT E (Some h') now' =
      Respond \<lparr>status = 403, send = Status_text ''Forbidden''\<rparr>"
    by (simp add: authenticateJWT_def sendStatus_def)
  with v a show ?thesis by simp
qed

text \<open>
  C6 as amended, on Alice's expired token and a malformed one.
\<close>

theorem expired_token_forbidden_witness:
  "jwt_verify sample_env ''alice@example~dcom.5.3605.k3y|alice@example~dcom|3605''
     (jwtSecret sample_env) 3605000 = Inl (TokenExpiredError 3605) \<and>
   authenticateJWT sample_env
     (Some ''Bearer alice@example~dcom.5.3605.k3y|alice@example~dcom|3605'') 3605000 =
     Respond \<lparr>status = 403, send = Status_text ''Forbidden''\<rparr> \<and>
   authenticateJWT sample_env (Some ''Bearer garbage'') 1000 =
     authenticateJWT sample_env
       (Some ''Bearer alice@example~dcom.5.3605.k3y|alice@example~dcom|3605'') 3605000"
proof -
  let ?t = "''alice@example~dcom.5.3605.k3y|alice@example~dcom|3605''"
  let ?j = "\<lparr>payload = \<lparr>payload_email = ''alice@example.com'', iat = 5, exp = 3605\<rparr>,
             signature = ''k3y|alice@example.com|3605''\<rparr>"
  have token: "bearer_token (Some (''Bearer '' @ ?t)) = Some ?t" "?t \<noteq> []"
    by (simp_all add: bearer_token_def)
  have parsed: "jwt_decode sample_env ?t = Some ?j"
    by (simp add: sample_env_def sample_decode_def parse_number_def digit_value_def)
  have key: "jwtSecret sample_env = Some ''k3y''" "''k3y'' \<noteq> []"
    by (simp_all add: sample_env_def)
  have signed: "signature ?j = hmac sample_env ''k3y'' (payload ?j)"
    by (simp add: sample_env_def number_to_string.simps digit_char_def)
  have expired: "exp (payload ?j) \<le> 3605000 div 1000"
    by simp
  have other: "bearer_token (Some ''Bearer garbage'') = Some ''garbage''" "''garbage'' \<noteq> []"
    "jwt_verify sample_env ''garbage'' (jwtSecret sample_env) 1000 =
       Inl (JsonWebTokenError ''jwt malformed'')"
    by (simp_all add: bearer_token_def jwt_verify_def sample_env_def sample_decode_def)
  from expired_token_forbidden [OF token parsed key signed expired other]
  show ?thesis by simp
qed

section \<open>Recipients\<close>

text \<open>
  C3, at a concrete input. With Alice registered before Bob, a request that names Bob
  first resolves to Alice, then Bob: the order is the store's, while the specification's
  resolver gives the order of the request.
\<close>

theorem recipients_not_in_request_order:
  "recipientEmails (users sample_store) [''bob@example.com'', ''alice@example.com''] =
     [''alice@example.com'', ''bob@example.com''] \<and>
   spec_resolve (users sample_store) [''bob@example.com'', ''alice@example.com''] =
     [''bob@example.com'', ''alice@example.com'']"
  by (simp add: recipientEmails_def find_in_def spec_resolve_def sample_store_eq)

text \<open>
  C3, as amended. With the emails of the store distinct, the resolved recipients are
  exactly the requested identifiers that the store holds, each once, in the order in
  which the store enumerates its users; the result is the same for any two requests that
  name the same set of identifiers. Identifiers the store does not hold are left out;
  the resolution has no error case.
\<close>

theorem recipients_in_store_order:
  assumes "distinct (map email us)"
  shows "set (recipientEmails us to) = set to \<inter> set (map email us) \<and>
         distinct (recipientEmails us to) \<and>
         recipientEmails us to = filter (\<lambda>e. e \<in> set to) (map email us) \<and>
         (set to' = set to \<longrightarrow> recipientEmails us to' = recipientEmails us to)"
proof -
  have eq: "recipientEmails us to = filter (\<lambda>e. e \<in> set to) (map email us)"
    by (simp add: recipientEmails_def find_in_def filter_map comp_def)
  have "set (recipientEmails us to) = set to \<inter> set (map email us)"
    unfolding eq by auto
  moreover from assms have "distinct (recipientEmails us to)"
    unfolding eq by (rule distinct_filter)
  moreover have "set to' = set to \<longrightarrow> recipientEmails us to' = recipientEmails us to"
    by (simp add: recipientEmails_def find_in_def)
  ultimately show ?thesis
    using eq by blast
qed

text \<open>
  C3 as amended, on the sample store: an unknown identifier and a repetition are
  dropped, and the order of the request does not matter.
\<close>

theorem recipients_in_store_order_witness:
  "recipientEmails (users sample_store)
     [''bob@example.com'', ''ghost@example.com'', ''alice@example.com'', ''bob@example.com''] =
     [''alice@example.com'', ''bob@example.com''] \<and>
   recipientEmails (users sample_store)
     [''alice@example.com'', ''ghost@example.com'', ''bob@example.com''] =
     recipientEmails (users sample_store)
       [''bob@example.com'', ''ghost@example.com'', ''alice@example.com'', ''bob@example.com'']"
proof -
  have d: "distinct (map email (users sample_store))"
    by (simp add: sample_store_eq)
  have s: "set [''alice@example.com'', ''ghost@example.com'', ''bob@example.com''] =
      set [''bob@example.com'', ''ghost@example.com'', ''alice@example.com'', ''bob@example.com'']"
    by auto
  from recipients_in_store_order [OF d,
      of "[''bob@example.com'', ''ghost@example.com'', ''alice@example.com'', ''bob@example.com'']"
        "[''alice@example.com'', ''ghost@example.com'', ''bob@example.com'']"] s
  show ?thesis
    by (simp add: sample_store_eq)
qed

section \<open>Uploads\<close>

text \<open>
  C7, at a concrete input. Two files with different bytes that carry the same name and are
  named within the same millisecond get the same storage name and the same path, and the
  one file on disk is neither of them: in the sample environment it holds the first
  file's bytes over the start of the second's.
\<close>

theorem storage_name_collision:
  "part_data \<lparr>part_name = ''a.txt'', part_data = ''first'', part_time = 1700000000000,
              write_error = None\<rparr> \<noteq>
   part_data \<lparr>part_name = ''a.txt'', part_data = ''second'', part_time = 1700000000000,
              write_error = None\<rparr> \<and>
   handle_files sample_env Map.empty []
     [\<lparr>part_name = ''a.txt'', part_data = ''first'', part_time = 1700000000000,
       write_error = None\<rparr>,
      \<lparr>part_name = ''a.txt'', part_data = ''second'', part_time = 1700000000000,
       write_error = None\<rparr>] =
   Uploaded
     (Some [\<lparr>originalname = ''a.txt'', filename = ''1700000000000-a.txt'',
             path = ''uploads/1700000000000-a.txt''\<rparr>,
            \<lparr>originalname = ''a.txt'', filename = ''1700000000000-a.txt'',
             path = ''uploads/1700000000000-a.txt''\<rparr>])
     [''uploads/1700000000000-a.txt'' \<mapsto> ''firstd'']"
  by (simp add: store_part_def file_info_def has_file_def basename_def storage_filename_def
      storage_path_def number_to_string.simps digit_char_def sample_env_def Let_def)

text \<open>
  C7, as amended. Two files get the same storage path exactly when they carry the same
  original name and are named at the same reading of the millisecond clock; files that
  differ in either get distinct paths.
\<close>

theorem storage_path_eq_iff:
  "storage_path (storage_filename t1 n1) = storage_path (storage_filename t2 n2) \<longleftrightarrow>
     t1 = t2 \<and> n1 = n2"
proof
  assume "storage_path (storage_filename t1 n1) = storage_path (storage_filename t2 n2)"
  then have eq: "number_to_string t1 @ CHR ''-'' # n1 = number_to_string t2 @ CHR ''-'' # n2"
    by (simp add: storage_path_def storage_filename_def)
  then have "js_split CHR ''-'' (number_to_string t1 @ CHR ''-'' # n1) =
      js_split CHR ''-'' (number_to_string t2 @ CHR ''-'' # n2)"
    by simp
  then have "number_to_string t1 = number_to_string t2"
    by (simp add: js_split_append dash_not_in_number)
  then have "t1 = t2"
    by (rule number_to_string_inject)
  with eq show "t1 = t2 \<and> n1 = n2"
    by simp
next
  assume "t1 = t2 \<and> n1 = n2"
  then show "storage_path (storage_filename t1 n1) = storage_path (storage_filename t2 n2)"
    by simp
qed

text \<open>
  The directory part of a client's file name does not reach the storage name, and a part
  whose name has no base name is not stored.
\<close>

lemma file_info_base_name:
  "file_info \<lparr>part_name = ''x/a.txt'', part_data = d, part_time = 7, write_error = None\<rparr> =
     \<lparr>originalname = ''a.txt'', filename = ''7-a.txt'', path = ''uploads/7-a.txt''\<rparr>"
  by (simp add: file_info_def basename_def storage_filename_def storage_path_def
      number_to_string.simps digit_char_def Let_def)

lemma handle_files_skips_nameless:
  "handle_files E disk []
     [\<lparr>part_name = ''x/..'', part_data = d, part_time = 7, write_error = None\<rparr>,
      \<lparr>part_name = [], part_data = d, part_time = 7, write_error = None\<rparr>] =
     Uploaded (Some []) disk"
  by (simp add: has_file_def basename_def Let_def)

text \<open>The write of a part changes the disk at the part's path only, and leaves a file there.\<close>

lemma store_part_other:
  "k \<noteq> path (file_info p) \<Longrightarrow> store_part E stored p disk k = disk k"
  by (simp add: store_part_def split: option.splits)

lemma store_part_dom: "path (file_info p) \<in> dom (store_part E stored p disk)"
  by (simp add: store_part_def split: option.splits)

lemma store_part_fresh:
  "path (file_info p) \<notin> set (map path stored) \<Longrightarrow>
   store_part E stored p disk (path (file_info p)) = Some (part_data p)"
  by (simp add: store_part_def split: option.splits)

lemma handle_files_failure:
  "\<exists>p\<in>set ps. has_file p \<and> write_error p \<noteq> None \<Longrightarrow>
   \<exists>err disk'. handle_files E disk stored ps = Upload_failed err disk' \<and>
     Some err \<in> write_error ` set ps"
proof (induction ps arbitrary: disk stored)
  case Nil
  then show ?case by simp
next
  case (Cons p ps)
  show ?case
  proof (cases "has_file p \<and> write_error p \<noteq> None")
    case True
    then show ?thesis by (auto simp: image_iff)
  next
    case False
    with Cons.prems have rest: "\<exists>q\<in>set ps. has_file q \<and> write_error q \<noteq> None"
      by auto
    show ?thesis
    proof (cases "has_file p")
      case True
      with False have "write_error p = None" by simp
      with True Cons.IH [OF rest, of "store_part E stored p disk" "stored @ [file_info p]"]
      show ?thesis by auto
    next
      case False
      with Cons.IH [OF rest, of disk stored] show ?thesis by auto
    qed
  qed
qed

text \<open>
  When every write succeeds, the middleware passes on the files of the parts that carry
  one, in the order of the request. The disk is changed at their paths only, every such
  path holds a file, and when the paths written for this request are distinct each holds
  the bytes of its part.
\<close>

lemma handle_files_success:
  assumes "\<forall>p\<in>set ps. write_error p = None"
  shows "\<exists>d. handle_files E disk stored ps =
             Uploaded (Some (stored @ map file_info (file_parts ps))) d \<and>
           (\<forall>k. k \<notin> (\<lambda>p. path (file_info p)) ` set (file_parts ps) \<longrightarrow> d k = disk k) \<and>
           (\<forall>p\<in>set (file_parts ps). path (file_info p) \<in> dom d) \<and>
           (distinct (map path stored @ map (\<lambda>p. path (file_info p)) (file_parts ps)) \<longrightarrow>
              (\<forall>p\<in>set (file_parts ps). d (path (file_info p)) = Some (part_data p)))"
  using assms
proof (induction ps arbitrary: disk stored)
  case Nil
  then show ?case by (simp add: file_parts_def)
next
  case (Cons p ps)
  then have ok: "\<forall>q\<in>set ps. write_error q = None" and w: "write_error p = None"
    by simp_all
  show ?case
  proof (cases "has_file p")
    case False
    with Cons.IH [OF ok, of disk stored] show ?thesis
      by (simp add: file_parts_def)
  next
    case True
    let ?disk = "store_part E stored p disk"
    let ?stored = "stored @ [file_info p]"
    let ?k = "path (file_info p)"
    let ?rest = "(\<lambda>p. path (file_info p)) ` set (file_parts ps)"
    from Cons.IH [OF ok, of ?disk ?stored] obtain d where
      run: "handle_files E ?disk ?stored ps =
              Uploaded (Some (?stored @ map file_info (file_parts ps))) d"
      and other: "\<forall>k. k \<notin> ?rest \<longrightarrow> d k = ?disk k"
      and present: "\<forall>q\<in>set (file_parts ps). path (file_info q) \<in> dom d"
      and own: "distinct (map path ?stored @ map (\<lambda>p. path (file_info p)) (file_parts ps)) \<longrightarrow>
                  (\<forall>q\<in>set (file_parts ps). d (path (file_info q)) = Some (part_data q))"
      by blast
    have parts: "file_parts (p # ps) = p # file_parts ps"
      using True by (simp add: file_parts_def)
    have 1: "handle_files E disk stored (p # ps) =
        Uploaded (Some (stored @ map file_info (file_parts (p # ps)))) d"
      using True w run by (simp add: parts)
    have 2: "\<forall>k. k \<notin> (\<lambda>p. path (file_info p)) ` set (file_parts (p # ps)) \<longrightarrow> d k = disk k"
      using other by (simp add: parts store_part_other)
    have 3: "\<forall>q\<in>set (file_parts (p # ps)). path (file_info q) \<in> dom d"
    proof (cases "?k \<in> ?rest")
      case True
      then obtain r where "r \<in> set (file_parts ps)" "path (file_info r) = ?k"
        by auto
      with present have "?k \<in> dom d" by metis
      with present show ?thesis by (simp add: parts)
    next
      case False
      with other have "d ?k = ?disk ?k" by simp
      with store_part_dom [of p E stored disk] have "?k \<in> dom d"
        by (simp add: domIff)
      with present show ?thesis by (simp add: parts)
    qed
    have 4: "distinct (map path stored @
          map (\<lambda>p. path (file_info p)) (file_parts (p # ps))) \<longrightarrow>
        (\<forall>q\<in>set (file_parts (p # ps)). d (path (file_info q)) = Some (part_data q))"
    proof
      assume dist: "distinct (map path stored @
          map (\<lambda>p. path (file_info p)) (file_parts (p # ps)))"
      then have fresh: "?k \<notin> set (map path stored)" and later: "?k \<notin> ?rest"
        and "distinct (map path ?stored @ map (\<lambda>p. path (file_info p)) (file_parts ps))"
        by (auto simp: parts)
      with own have rest: "\<forall>q\<in>set (file_parts ps). d (path (file_info q)) = Some (part_data q)"
        by blast
      from later other have "d ?k = ?disk ?k" by simp
      with store_part_fresh [OF fresh] have "d ?k = Some (part_data p)"
        by simp
      with rest show "\<forall>q\<in>set (file_parts (p # ps)). d (path (file_info q)) = Some (part_data q)"
        by (simp add: parts)
    qed
    from 1 2 3 4 show ?thesis by blast
  qed
qed

text \<open>
  C8. When the write of any attachment of a multipart request fails, the request is
  answered 500 by the framework's error handler with the error of a failed write, the
  handler does not run, and nothing is submitted to the transport.
\<close>

theorem storage_failure_aborts:
  assumes "req_multipart req"
    and "\<exists>p\<in>set (req_files req). has_file p \<and> write_error p \<noteq> None"
  shows "\<exists>err. fst (send_email E st req) = \<lparr>status = 500, send = Error_page err\<rparr> \<and>
           Some err \<in> write_error ` set (req_files req) \<and>
           outbox (snd (send_email E st req)) = outbox st \<and>
           users (snd (send_email E st req)) = users st"
proof -
  from handle_files_failure [OF assms(2)] obtain err disk'
    where "handle_files E (uploads st) [] (req_files req) = Upload_failed err disk'"
      and "Some err \<in> write_error ` set (req_files req)"
    by blast
  with assms(1) show ?thesis
    by (simp add: send_email_def upload_array_def)
qed

text \<open>
  C8 on a request with two attachments, the second of which meets a full disk.
\<close>

theorem storage_failure_aborts_witness:
  "\<exists>err.
     fst (send_email sample_env sample_store
       \<lparr>req_authorization = None, req_multipart = True, req_email = ''alice@example.com'',
        req_to = [''bob@example.com''], req_subject = ''Hi'', req_body = ''Test'',
        req_files =
          [\<lparr>part_name = ''a.txt'', part_data = ''first'', part_time = 1700000000000,
            write_error = None\<rparr>,
           \<lparr>part_name = ''b.txt'', part_data = ''second'', part_time = 1700000000001,
            write_error = Some ''ENOSPC''\<rparr>]\<rparr>) =
       \<lparr>status = 500, send = Error_page err\<rparr> \<and>
     outbox (snd (send_email sample_env sample_store
       \<lparr>req_authorization = None, req_multipart = True, req_email = ''alice@example.com'',
        req_to = [''bob@example.com''], req_subject = ''Hi'', req_body = ''Test'',
        req_files =
          [\<lparr>part_name = ''a.txt'', part_data = ''first'', part_time = 1700000000000,
            write_error = None\<rparr>,
           \<lparr>part_name = ''b.txt'', part_data = ''second'', part_time = 1700000000001,
            write_error = Some ''ENOSPC''\<rparr>]\<rparr>)) = []"
  using storage_failure_aborts [of
      "\<lparr>req_authorization = None, req_multipart = True, req_email = ''alice@example.com'',
        req_to = [''bob@example.com''], req_subject = ''Hi'', req_body = ''Test'',
        req_files =
          [\<lparr>part_name = ''a.txt'', part_data = ''first'', part_time = 1700000000000,
            write_error = None\<rparr>,
           \<lparr>part_name = ''b.txt'', part_data = ''second'', part_time = 1700000000001,
            write_error = Some ''ENOSPC''\<rparr>]\<rparr>" sample_env sample_store]
  by (simp add: sample_store_eq has_file_def basename_def)

text \<open>
  C10. When all attachments of a multipart request are written and the transport then
  refuses the message, the answer is 500 with \<^verbatim>\<open>Failed to send email\<close>, the message
  was submitted after the writes, and the disk is exactly as the upload middleware left
  it: what was stored at other paths is untouched, every attachment's path holds a file,
  and it holds that attachment's bytes when the storage paths of the request are
  distinct.
\<close>

theorem transport_failure_keeps_uploads:
  assumes "req_multipart req"
    and "\<forall>p\<in>set (req_files req). write_error p = None"
    and "smtp E (compose (users st) req (map file_info (file_parts (req_files req)))) = Inl err"
  shows "fst (send_email E st req) = \<lparr>status = 500, send = Message ''Failed to send email''\<rparr> \<and>
         outbox (snd (send_email E st req)) =
           outbox st @ [compose (users st) req (map file_info (file_parts (req_files req)))] \<and>
         upload_array E req (uploads st) =
           Uploaded (Some (map file_info (file_parts (req_files req))))
             (uploads (snd (send_email E st req))) \<and>
         (\<forall>k. k \<notin> (\<lambda>p. path (file_info p)) ` set (file_parts (req_files req)) \<longrightarrow>
            uploads (snd (send_email E st req)) k = uploads st k) \<and>
         (\<forall>p\<in>set (file_parts (req_files req)).
            path (file_info p) \<in> dom (uploads (snd (send_email E st req)))) \<and>
         (distinct (map (\<lambda>p. path (file_info p)) (file_parts (req_files req))) \<longrightarrow>
            (\<forall>p\<in>set (file_parts (req_files req)).
               uploads (snd (send_email E st req)) (path (file_info p)) = Some (part_data p)))"
proof -
  let ?files = "map file_info (file_parts (req_files req))"
  let ?mail = "compose (users st) req ?files"
  from handle_files_success [OF assms(2), of E "uploads st" "[]"] obtain d where
    run: "handle_files E (uploads st) [] (req_files req) = Uploaded (Some ?files) d"
    and other: "\<forall>k. k \<notin> (\<lambda>p. path (file_info p)) ` set (file_parts (req_files req)) \<longrightarrow>
        d k = uploads st k"
    and present: "\<forall>p\<in>set (file_parts (req_files req)). path (file_info p) \<in> dom d"
    and own: "distinct (map (\<lambda>p. path (file_info p)) (file_parts (req_files req))) \<longrightarrow>
        (\<forall>p\<in>set (file_parts (req_files req)). d (path (file_info p)) = Some (part_data p))"
    by auto
  from assms(1) run have up: "upload_array E req (uploads st) = Uploaded (Some ?files) d"
    by (simp add: upload_array_def)
  with assms(3) have r: "send_email E st req =
      (\<lparr>status = 500, send = Message ''Failed to send email''\<rparr>,
       st\<lparr>uploads := d, outbox := outbox st @ [?mail]\<rparr>)"
    by (simp add: send_email_def send_email_handler_def Let_def)
  from up other present own show ?thesis
    by (simp add: r)
qed

text \<open>
  C10 on a request with two attachments whose only recipient is unknown, which the
  sample transport refuses.
\<close>

theorem transport_failure_keeps_uploads_witness:
  "fst (send_email sample_env sample_store
     \<lparr>req_authorization = None, req_multipart = True, req_email = ''alice@example.com'',
      req_to = [''ghost@example.com''], req_subject = ''Hi'', req_body = ''Test'',
      req_files =
        [\<lparr>part_name = ''a.txt'', part_data = ''first'', part_time = 1700000000000,
          write_error = None\<rparr>,
         \<lparr>part_name = ''b.txt'', part_data = ''second'', part_time = 1700000000001,
          write_error = None\<rparr>]\<rparr>) =
     \<lparr>status = 500, send = Message ''Failed to send email''\<rparr> \<and>
   uploads (snd (send_email sample_env sample_store
     \<lparr>req_authorization = None, req_multipart = True, req_email = ''alice@example.com'',
      req_to = [''ghost@example.com''], req_subject = ''Hi'', req_body = ''Test'',
      req_files =
        [\<lparr>part_name = ''a.txt'', part_data = ''first'', part_time = 1700000000000,
          write_error = None\<rparr>,
         \<lparr>part_name = ''b.txt'', part_data = ''second'', part_time = 1700000000001,
          write_error = None\<rparr>]\<rparr>)) =
     [''uploads/1700000000000-a.txt'' \<mapsto> ''first'',
      ''uploads/1700000000001-b.txt'' \<mapsto> ''second'']"
proof -
  let ?req = "\<lparr>req_authorization = None, req_multipart = True, req_email = ''alice@example.com'',
      req_to = [''ghost@example.com''], req_subject = ''Hi'', req_body = ''Test'',
      req_files =
        [\<lparr>part_name = ''a.txt'', part_data = ''first'', part_time = 1700000000000,
          write_error = None\<rparr>,
         \<lparr>part_name = ''b.txt'', part_data = ''second'', part_time = 1700000000001,
          write_error = None\<rparr>]\<rparr>"
  have multipart: "req_multipart ?req"
    by simp
  have written: "\<forall>p\<in>set (req_files ?req). write_error p = None"
    by simp
  have refused: "smtp sample_env
      (compose (users sample_store) ?req (map file_info (file_parts (req_files ?req)))) =
      Inl ''No recipients defined''"
    by (simp add: sample_env_def compose_def recipientEmails_def find_in_def sample_store_eq)
  have disk: "upload_array sample_env ?req (uploads sample_store) =
      Uploaded (Some (map file_info (file_parts (req_files ?req))))
        [''uploads/1700000000000-a.txt'' \<mapsto> ''first'',
         ''uploads/1700000000001-b.txt'' \<mapsto> ''second'']"
    by (simp add: upload_array_def store_part_def file_info_def file_parts_def has_file_def
        basename_def storage_filename_def storage_path_def number_to_string.simps
        digit_char_def Let_def sample_store_eq)
  from transport_failure_keeps_uploads [OF multipart written refused] disk
  show ?thesis by simp
qed

section \<open>The send route and the token\<close>

text \<open>The route never reads the \<^verbatim>\<open>Authorization\<close> header.\<close>

lemma send_email_ignores_authorization:
  "send_email E st (req\<lparr>req_authorization := a\<rparr>) = send_email E st req"
  by (simp add: send_email_def upload_array_def send_email_handler_def compose_def
      split: upload_result.splits option.splits)

text \<open>
  C1, at a concrete input. A request without an \<^verbatim>\<open>Authorization\<close> header, which
  the authentication middleware would answer 401, is served by the send route: line 131
  mounts the upload middleware and the handler only, so the message goes to the
  transport with the sender the body names.
\<close>

theorem send_email_without_token:
  "authenticateJWT sample_env None 9000 =
     Respond \<lparr>status = 401, send = Status_text ''Unauthorized''\<rparr> \<and>
   send_email sample_env sample_store
     \<lparr>req_authorization = None, req_multipart = True, req_email = ''mallory@example.net'',
      req_to = [''bob@example.com''], req_subject = ''Hi'', req_body = ''Test'',
      req_files = []\<rparr> =
     (\<lparr>status = 200, send = Sent ''Email sent successfully'' ''250 OK''\<rparr>,
      sample_store\<lparr>outbox :=
        [\<lparr>mail_from = ''mallory@example.net'', mail_to = ''bob@example.com'',
          mail_subject = ''Hi'', mail_text = ''Test'', mail_attachments = []\<rparr>]\<rparr>)"
  by (simp add: authenticateJWT_def bearer_token_def sendStatus_def send_email_def
      upload_array_def send_email_handler_def compose_def recipientEmails_def find_in_def
      sample_env_def sample_store_eq Let_def)

end
